theory Spec2Isabelle
  imports Main
begin

section \<open>The example Modbus UDP server\<close>

text \<open>
  \<^verbatim>\<open>src/example/modbus_server_udp.py\<close> holds one function, \<^verbatim>\<open>run_modbus_server\<close>. It
  builds a data store of four sequential data blocks, wraps it in a server context, fills
  in a device identification and starts a UDP server of the pymodbus library on them.
  The classes it instantiates are declared in that library; each is embedded as a record
  of the arguments the source passes, under the names the source uses. The handling of
  requests (decoding, bounds checks, dispatch, encoding) is the library's and has no
  source in this repository, so nothing below defines it.
\<close>

subsection \<open>Python list repetition\<close>

text \<open>
  \<^verbatim>\<open>xs * n\<close> on a Python list is \<^verbatim>\<open>n\<close> copies of \<^verbatim>\<open>xs\<close> one after the other, and the
  empty list when \<^verbatim>\<open>n\<close> is zero or negative.
\<close>

definition list_repeat :: "'a list \<Rightarrow> int \<Rightarrow> 'a list" where
  "list_repeat xs n = concat (replicate (nat n) xs)"

subsection \<open>The data store\<close>

text \<open>
  \<^verbatim>\<open>ModbusSequentialDataBlock(0, [20] * 100)\<close>: the first positional argument is the
  block's starting address, the second its list of entries.
\<close>

record ModbusSequentialDataBlock =
  address :: int
  block_values :: "int list"

text \<open>
  \<^verbatim>\<open>ModbusSlaveContext(di=..., co=..., hr=..., ir=...)\<close>: discrete inputs, coils, holding
  registers and input registers, by keyword.
\<close>

record ModbusSlaveContext =
  di :: ModbusSequentialDataBlock
  co :: ModbusSequentialDataBlock
  hr :: ModbusSequentialDataBlock
  ir :: ModbusSequentialDataBlock

text \<open>\<^verbatim>\<open>ModbusServerContext(slaves=store, single=True)\<close>.\<close>

record ModbusServerContext =
  slaves :: ModbusSlaveContext
  single_unit :: bool

definition store :: ModbusSlaveContext where
  "store =
     \<lparr> di = \<lparr> address = 0, block_values = list_repeat [20] 100 \<rparr>,
       co = \<lparr> address = 0, block_values = list_repeat [20] 100 \<rparr>,
       hr = \<lparr> address = 0, block_values = list_repeat [20] 100 \<rparr>,
       ir = \<lparr> address = 0, block_values = list_repeat [20] 100 \<rparr> \<rparr>"

definition server_context :: ModbusServerContext where
  "server_context = \<lparr> slaves = store, single_unit = True \<rparr>"

subsection \<open>The device identification\<close>

text \<open>
  \<^verbatim>\<open>identity = ModbusDeviceIdentification()\<close> followed by six attribute assignments; the
  record has the six attributes the source assigns, with the values it assigns.
\<close>

record ModbusDeviceIdentification =
  VendorName :: string
  ProductCode :: string
  VendorUrl :: string
  ProductName :: string
  ModelName :: string
  MajorMinorRevision :: string

definition identity :: ModbusDeviceIdentification where
  "identity =
     \<lparr> VendorName = ''Pymodbus'',
       ProductCode = ''PM'',
       VendorUrl = ''http://github.com/riptideio/pymodbus/'',
       ProductName = ''Pymodbus Server'',
       ModelName = ''Pymodbus Server'',
       MajorMinorRevision = ''1.0'' \<rparr>"

subsection \<open>Starting the server\<close>

text \<open>
  \<^verbatim>\<open>ModbusUdpServer(context=context, identity=identity, address=("127.0.0.1", 5021))\<close>.
  \<^verbatim>\<open>serve_forever\<close> does not return; \<open>run_modbus_server\<close> is the server as it is
  constructed, which is the state the program starts serving from.
\<close>

record ModbusUdpServer =
  udp_context :: ModbusServerContext
  udp_identity :: ModbusDeviceIdentification
  udp_address :: "string \<times> int"

definition run_modbus_server :: ModbusUdpServer where
  "run_modbus_server =
     \<lparr> udp_context = server_context,
       udp_identity = identity,
       udp_address = (''127.0.0.1'', 5021) \<rparr>"

text \<open>The data store the server holds when it starts.\<close>

definition startup_store :: ModbusSlaveContext where
  "startup_store = slaves (udp_context run_modbus_server)"

text \<open>The values a single-bit entry (a coil or a discrete input) can take.\<close>

definition one_bit :: "int \<Rightarrow> bool" where
  "one_bit v \<longleftrightarrow> v = 0 \<or> v = 1"

section \<open>Properties of the configuration\<close>

lemma list_repeat_single: "list_repeat [x] n = replicate (nat n) x"
  unfolding list_repeat_def by (induction "nat n" arbitrary: n) (simp_all add: replicate_append_same)

text \<open>
  Claim C9. When the server starts, its four address spaces (discrete inputs, coils,
  holding registers, input registers) are configured alike: each block starts at address
  0, has 100 entries, and every entry is 20. This holds for the two single-bit spaces as
  well, so no initial entry of the coils or of the discrete inputs is one of the
  single-bit values 0 and 1.
\<close>

theorem startup_spaces_configured_alike:
  "di startup_store = co startup_store
   \<and> co startup_store = hr startup_store
   \<and> hr startup_store = ir startup_store
   \<and> address (di startup_store) = 0
   \<and> address (co startup_store) = 0
   \<and> address (hr startup_store) = 0
   \<and> address (ir startup_store) = 0
   \<and> length (block_values (di startup_store)) = 100
   \<and> length (block_values (co startup_store)) = 100
   \<and> length (block_values (hr startup_store)) = 100
   \<and> length (block_values (ir startup_store)) = 100
   \<and> list_all (\<lambda>v. v = 20) (block_values (di startup_store))
   \<and> list_all (\<lambda>v. v = 20) (block_values (co startup_store))
   \<and> list_all (\<lambda>v. v = 20) (block_values (hr startup_store))
   \<and> list_all (\<lambda>v. v = 20) (block_values (ir startup_store))
   \<and> list_all (\<lambda>v. \<not> one_bit v) (block_values (di startup_store))
   \<and> list_all (\<lambda>v. \<not> one_bit v) (block_values (co startup_store))"
proof -
  have entries: "list_repeat [20::int] 100 = replicate 100 20"
    by (simp add: list_repeat_single)
  have all_20: "list_all (\<lambda>v. v = 20) (replicate 100 (20::int))"
    by (simp add: list_all_length)
  have no_bit: "list_all (\<lambda>v. \<not> one_bit v) (replicate 100 (20::int))"
    by (simp add: list_all_length one_bit_def)
  show ?thesis
    unfolding startup_store_def run_modbus_server_def server_context_def store_def entries
    using all_20 no_bit by simp
qed

end
